theory Spec2Isabelle
  imports Complex_Main "HOL-Library.Word"
begin

unbundle bit_operations_syntax

section \<open>The software PLL simulator \<^verbatim>\<open>python/sw_pll_sim.py\<close>\<close>

text \<open>
  The model follows \<^verbatim>\<open>sw_pll_sim.py\<close> class by class. Python floats are modelled by
  \<^typ>\<open>real\<close>: every arithmetic operation is the exact one, so rounding, infinities and
  NaN are outside the model. Python integers are \<^typ>\<open>int\<close>, the entries of the
  \<^verbatim>\<open>np.uint16\<close> lookup table are \<^typ>\<open>16 word\<close>. Printing (the \<^verbatim>\<open>verbose\<close> output) and
  plotting have no counterpart; an exception raised while a message is formatted has one.
  Objects are records, a method takes the object and returns the updated object together
  with the exception it raised or the value it returned.
\<close>

subsection \<open>Python values and exceptions\<close>

text \<open>
  The fields \<^verbatim>\<open>F\<close>, \<^verbatim>\<open>R\<close>, \<^verbatim>\<open>OD\<close>, \<^verbatim>\<open>f\<close> and \<^verbatim>\<open>p\<close> are tested with
  \<^verbatim>\<open>type(x) is int\<close>, so a number carries its Python type.
\<close>

datatype num = PyInt int | PyFloat real

fun val :: "num \<Rightarrow> real" where
  "val (PyInt i) = of_int i"
| "val (PyFloat x) = x"

fun type_is_int :: "num \<Rightarrow> bool" where
  "type_is_int (PyInt i) = True"
| "type_is_int (PyFloat x) = False"

text \<open>The assertions of \<^verbatim>\<open>calc_frequency\<close>, in the order of the source (lines 47 to 61).\<close>

datatype assertion =
    Invalid_F_setting
  | F_must_be_an_INT
  | Invalid_R_setting
  | R_must_be_an_INT
  | Invalid_OD_setting
  | OD_must_be_an_INT
  | Invalid_VCO_freq
  | r_must_be_an_INT
  | f_must_be_an_INT
  | f_is_not_lt_p

datatype py_error =
    AssertionError assertion
  | ZeroDivisionError
  | IndexError
  | UnboundLocalError
  | AttributeError
  | ValueError
  | OverflowError

text \<open>\<^verbatim>\<open>int(x)\<close> on a float truncates towards zero.\<close>

definition py_int :: "real \<Rightarrow> int" where
  "py_int x = (if 0 \<le> x then \<lfloor>x\<rfloor> else \<lceil>x\<rceil>)"

text \<open>
  \<^verbatim>\<open>np.clip(a, a_min, a_max)\<close> is \<^verbatim>\<open>np.minimum(a_max, np.maximum(a, a_min))\<close>; numpy does
  not check that \<^verbatim>\<open>a_min <= a_max\<close>.
\<close>

definition np_clip :: "real \<Rightarrow> real \<Rightarrow> real \<Rightarrow> real" where
  "np_clip a a_min a_max = min a_max (max a a_min)"

text \<open>
  \<^verbatim>\<open>lut[k]\<close> on a numpy array: \<open>k\<close> from \<open>-len\<close> to \<open>-1\<close> addresses the array from its end,
  and \<^verbatim>\<open>IndexError\<close> is raised outside \<open>-len\<close> to \<open>len - 1\<close>.
\<close>

definition np_getitem :: "'a list \<Rightarrow> int \<Rightarrow> py_error + 'a" where
  "np_getitem lut k =
     (if 0 \<le> k \<and> k < int (length lut) then Inr (lut ! nat k)
      else if - int (length lut) \<le> k \<and> k < 0 then Inr (lut ! nat (int (length lut) + k))
      else Inl IndexError)"

text \<open>
  \<^verbatim>\<open>lut[idx] = reg\<close> on an \<^verbatim>\<open>np.uint16\<close> array, for an index and a Python integer that
  are not negative: the index is looked up first (\<^verbatim>\<open>IndexError\<close>), then the integer is
  converted, and numpy raises \<^verbatim>\<open>OverflowError\<close> for one that 16 bits do not hold.
\<close>

definition np_setitem :: "16 word list \<Rightarrow> nat \<Rightarrow> nat \<Rightarrow> py_error + 16 word list" where
  "np_setitem lut idx reg =
     (if \<not> idx < length lut then Inl IndexError
      else if \<not> reg < 65536 then Inl OverflowError
      else Inr (lut[idx := of_nat reg]))"

subsection \<open>\<^verbatim>\<open>class app_pll_frac_calc\<close>\<close>

record app_pll_frac_calc =
  input_frequency :: real
  F :: num
  R :: num
  OD :: num
  ACD :: num
  f :: num
  p :: num
  output_frequency :: "real option"
  lock_status_state :: int

text \<open>
  \<^verbatim>\<open>calc_frequency\<close> (lines 43 to 66). An assertion that fails leaves the object as it
  is. After the assertions \<^verbatim>\<open>f\<close> and \<^verbatim>\<open>p\<close> are Python integers, and
  \<^verbatim>\<open>(self.f + 1) / (self.p + 1)\<close> raises \<^verbatim>\<open>ZeroDivisionError\<close> for \<^verbatim>\<open>p = -1\<close>; the last
  division, by \<^verbatim>\<open>2.0 * (self.ACD + 1)\<close>, raises it for \<^verbatim>\<open>ACD = -1\<close>. The divisors
  \<^verbatim>\<open>R + 1.0\<close> and \<^verbatim>\<open>OD + 1.0\<close> are at least 1 once the assertions have passed.
\<close>

definition calc_frequency ::
  "'a app_pll_frac_calc_scheme \<Rightarrow> 'a app_pll_frac_calc_scheme \<times> (py_error + real)" where
  "calc_frequency self =
     (if \<not> (val (F self) \<ge> 1 \<and> val (F self) \<le> 8191) then (self, Inl (AssertionError Invalid_F_setting))
      else if \<not> type_is_int (F self) then (self, Inl (AssertionError F_must_be_an_INT))
      else if \<not> (val (R self) \<ge> 0 \<and> val (R self) \<le> 63) then (self, Inl (AssertionError Invalid_R_setting))
      else if \<not> type_is_int (R self) then (self, Inl (AssertionError R_must_be_an_INT))
      else if \<not> (val (OD self) \<ge> 0 \<and> val (OD self) \<le> 7) then (self, Inl (AssertionError Invalid_OD_setting))
      else if \<not> type_is_int (OD self) then (self, Inl (AssertionError OD_must_be_an_INT))
      else
        let intermediate_freq = input_frequency self * (val (F self) + 1) / 2 / (val (R self) + 1)
        in if \<not> (intermediate_freq \<ge> 360000000 \<and> intermediate_freq \<le> 1800000000)
             then (self, Inl (AssertionError Invalid_VCO_freq))
           else if \<not> type_is_int (p self) then (self, Inl (AssertionError r_must_be_an_INT))
           else if \<not> type_is_int (f self) then (self, Inl (AssertionError f_must_be_an_INT))
           else if \<not> (val (p self) > val (f self)) then (self, Inl (AssertionError f_is_not_lt_p))
           else if val (p self) + 1 = 0 then (self, Inl ZeroDivisionError)
           else if 2 * (val (ACD self) + 1) = 0 then (self, Inl ZeroDivisionError)
           else
             let out = input_frequency self
                         * (val (F self) + 1 + ((val (f self) + 1) / (val (p self) + 1)))
                         / 2 / (val (R self) + 1) / (val (OD self) + 1)
                         / (2 * (val (ACD self) + 1))
             in (self\<lparr>output_frequency := Some out\<rparr>, Inr out))"

text \<open>\<^verbatim>\<open>__init__\<close> (lines 29 to 41): an exception of \<^verbatim>\<open>calc_frequency\<close> leaves no object.\<close>

definition app_pll_frac_calc_init ::
  "real \<Rightarrow> num \<Rightarrow> num \<Rightarrow> num \<Rightarrow> num \<Rightarrow> num \<Rightarrow> num \<Rightarrow> py_error + app_pll_frac_calc" where
  "app_pll_frac_calc_init input_frequency' F_init R_init OD_init ACD_init f_init r_init =
     (case calc_frequency
        \<lparr>input_frequency = input_frequency', F = F_init, R = R_init, OD = OD_init,
         ACD = ACD_init, f = f_init, p = r_init, output_frequency = None,
         lock_status_state = 0\<rparr> of
        (self, Inl e) \<Rightarrow> Inl e
      | (self, Inr out) \<Rightarrow> Inr self)"

definition get_output_freqency :: "'a app_pll_frac_calc_scheme \<Rightarrow> real option" where
  "get_output_freqency self = output_frequency self"

text \<open>\<^verbatim>\<open>update_pll_frac\<close> (lines 80 to 83) returns nothing.\<close>

definition update_pll_frac ::
  "'a app_pll_frac_calc_scheme \<Rightarrow> num \<Rightarrow> num \<Rightarrow> 'a app_pll_frac_calc_scheme \<times> (py_error + unit)" where
  "update_pll_frac self f' p' =
     (case calc_frequency (self\<lparr>f := f', p := p'\<rparr>) of
        (self', Inl e) \<Rightarrow> (self', Inl e)
      | (self', Inr out) \<Rightarrow> (self', Inr ()))"

text \<open>\<^verbatim>\<open>reg_to_frac\<close> (lines 141 to 145), on a Python integer.\<close>

definition reg_to_frac :: "int \<Rightarrow> int \<times> int" where
  "reg_to_frac register = (drop_bit 8 (register AND 0xff00), register AND 0xff)"

subsection \<open>\<^verbatim>\<open>class parse_lut_h_file\<close>\<close>

text \<open>
  The header file is read line by line and two regular expressions are searched in each
  line (lines 95 to 112). Reading the file and matching are not modelled: a line is what
  the two searches found in it. The first one finds the size of a \<^verbatim>\<open>frac_values[n]\<close>
  declaration. The second one finds an entry: hexadecimal digits, from which
  \<^verbatim>\<open>int(reg, 16)\<close> makes an integer of any size, decimal digits for the index, and for
  the fraction a \<open>0\<close>, any one character and decimal digits. \<^verbatim>\<open>float(frac)\<close> raises
  \<^verbatim>\<open>ValueError\<close> when that text is no float literal; the conversion of the text is not
  modelled, the third component is its outcome, \<open>None\<close> for the exception.
\<close>

record header_line =
  regex_ne :: "nat option"
  regex_fr :: "(nat \<times> nat \<times> real option) option"

text \<open>
  The loop of \<^verbatim>\<open>__init__\<close>. The conversions of line 107 to 109 come first, then the
  minimum and the maximum, then the store of line 112. The local \<^verbatim>\<open>lut\<close> is unbound
  (\<open>None\<close>) until a declaration has been seen, and \<^verbatim>\<open>lut[idx] = reg\<close> then raises
  \<^verbatim>\<open>UnboundLocalError\<close>.
\<close>

fun parse_lines ::
  "header_line list \<Rightarrow> 16 word list option \<times> real \<times> real
     \<Rightarrow> py_error + (16 word list option \<times> real \<times> real)" where
  "parse_lines [] st = Inr st"
| "parse_lines (line # header) (lut, min_frac, max_frac) =
     (let lut = (case regex_ne line of
                   Some num_entries \<Rightarrow> Some (replicate num_entries 0)
                 | None \<Rightarrow> lut)
      in case regex_fr line of
           None \<Rightarrow> parse_lines header (lut, min_frac, max_frac)
         | Some (reg, idx, float_frac) \<Rightarrow>
             (case float_frac of
                None \<Rightarrow> Inl ValueError
              | Some frac' \<Rightarrow>
                  (let min_frac = (if frac' < min_frac then frac' else min_frac);
                       max_frac = (if frac' > max_frac then frac' else max_frac)
                   in (case lut of
                         None \<Rightarrow> Inl UnboundLocalError
                       | Some l \<Rightarrow>
                           (case np_setitem l idx reg of
                              Inl e \<Rightarrow> Inl e
                            | Inr l' \<Rightarrow> parse_lines header (Some l', min_frac, max_frac))))))"

text \<open>
  \<^verbatim>\<open>parse_lut_h_file.__init__\<close> (lines 90 to 118); the result is the triple of the
  attributes \<^verbatim>\<open>lut_reg\<close>, \<^verbatim>\<open>min_frac\<close> and \<^verbatim>\<open>max_frac\<close>.
\<close>

definition parse_lut_h_file_init ::
  "header_line list \<Rightarrow> py_error + (16 word list \<times> real \<times> real)" where
  "parse_lut_h_file_init header =
     (case parse_lines header (None, 1, 0) of
        Inl e \<Rightarrow> Inl e
      | Inr (None, min_frac, max_frac) \<Rightarrow> Inl UnboundLocalError
      | Inr (Some lut, min_frac, max_frac) \<Rightarrow> Inr (lut, min_frac, max_frac))"

subsection \<open>\<^verbatim>\<open>class error_to_pll_output_frequency\<close>\<close>

text \<open>The class inherits from both classes above: the record extends the first one.\<close>

record error_to_pll_output_frequency = app_pll_frac_calc +
  lut_reg :: "16 word list"
  min_frac :: real
  max_frac :: real

definition error_to_pll_output_frequency_init ::
  "header_line list \<Rightarrow> real \<Rightarrow> num \<Rightarrow> num \<Rightarrow> num \<Rightarrow> num \<Rightarrow> num \<Rightarrow> num
     \<Rightarrow> py_error + error_to_pll_output_frequency" where
  "error_to_pll_output_frequency_init header_file input_frequency' F_init R_init OD_init
       ACD_init f_init p_init =
     (case app_pll_frac_calc_init input_frequency' F_init R_init OD_init ACD_init f_init p_init of
        Inl e \<Rightarrow> Inl e
      | Inr a \<Rightarrow>
          (case parse_lut_h_file_init header_file of
             Inl e \<Rightarrow> Inl e
           | Inr (lut, min_frac', max_frac') \<Rightarrow>
               Inr \<lparr>input_frequency = input_frequency a, F = F a, R = R a, OD = OD a,
                    ACD = ACD a, f = f a, p = p a, output_frequency = output_frequency a,
                    lock_status_state = lock_status_state a,
                    lut_reg = lut, min_frac = min_frac', max_frac = max_frac'\<rparr>))"

definition get_lut :: "error_to_pll_output_frequency \<Rightarrow> 16 word list" where
  "get_lut self = lut_reg self"

definition get_lut_size :: "error_to_pll_output_frequency \<Rightarrow> int" where
  "get_lut_size self = int (length (lut_reg self))"

text \<open>
  \<^verbatim>\<open>get_output_freqency_from_error\<close> (lines 147 to 169). The lock status is the integer
  of the source: \<open>-1\<close>, \<open>0\<close> or \<open>1\<close>.
\<close>

definition get_output_freqency_from_error ::
  "error_to_pll_output_frequency \<Rightarrow> real
     \<Rightarrow> error_to_pll_output_frequency \<times> (py_error + real option \<times> int)" where
  "get_output_freqency_from_error self error' =
     (let lut = get_lut self;
          num_entries = int (length lut);
          set_point = num_entries div 2 - py_int error';
          (set_point, lock_status) =
             (if set_point < 0 then (0, -1)
              else if set_point \<ge> num_entries then (num_entries - 1, 1)
              else (set_point, 0))
      in case np_getitem lut set_point of
           Inl e \<Rightarrow> (self, Inl e)
         | Inr w \<Rightarrow>
             (let register = uint w;
                  (f', p') = reg_to_frac register
              in (case update_pll_frac self (PyInt f') (PyInt p') of
                    (self', Inl e) \<Rightarrow> (self', Inl e)
                  | (self', Inr u) \<Rightarrow> (self', Inr (get_output_freqency self', lock_status)))))"

subsection \<open>\<^verbatim>\<open>class sw_pll_ctrl\<close>\<close>

definition target_mclk_frequency :: real where
  "target_mclk_frequency = 12288000"

definition lock_status_lookup :: "int \<rightharpoonup> string" where
  "lock_status_lookup =
     [-1 \<mapsto> ''UNLOCKED LOW'', 0 \<mapsto> ''LOCKED'', 1 \<mapsto> ''UNLOCKED HIGH'']"

text \<open>
  The attribute \<^verbatim>\<open>lut_lookup_function\<close> is a bound method, a callable with an object of
  its own: it is an argument of \<^verbatim>\<open>do_control\<close> below and not a field, and takes its
  object before the error.
\<close>

record sw_pll_ctrl =
  multiplier :: real
  ref_to_loop_call_rate :: int
  ref_clk_count :: int
  mclk_count_old :: int
  expected_mclk_count_inc_float :: real
  expected_mclk_count_float :: real
  Kp :: real
  Ki :: real
  Kii :: real
  error_accum :: real
  error_accum_accum :: real
  error :: real
  i_windup_limit :: real
  ii_windup_limit :: real
  last_mclk_frequency :: real
  verbose :: bool

text \<open>
  \<^verbatim>\<open>__init__\<close> (lines 336 to 362). As in the source, \<^verbatim>\<open>ref_clk_count\<close> starts from
  \<^verbatim>\<open>init_mclk_count\<close> and \<^verbatim>\<open>init_ref_clk_count\<close> is not used.
\<close>

definition sw_pll_ctrl_init ::
  "int \<Rightarrow> real \<Rightarrow> int \<Rightarrow> real \<Rightarrow> real \<Rightarrow> real \<Rightarrow> int \<Rightarrow> int \<Rightarrow> bool \<Rightarrow> sw_pll_ctrl" where
  "sw_pll_ctrl_init lut_size multiplier' ref_to_loop_call_rate' Kp' Ki' Kii'
       init_mclk_count init_ref_clk_count verbose' =
     \<lparr>multiplier = multiplier',
      ref_to_loop_call_rate = ref_to_loop_call_rate',
      ref_clk_count = init_mclk_count,
      mclk_count_old = init_mclk_count,
      expected_mclk_count_inc_float = multiplier' * of_int ref_to_loop_call_rate',
      expected_mclk_count_float = 0,
      Kp = Kp', Ki = Ki', Kii = Kii',
      error_accum = 0, error_accum_accum = 0, error = 0,
      i_windup_limit = (if Ki' \<noteq> 0 then of_int lut_size / Ki' else 0),
      ii_windup_limit = (if Kii' \<noteq> 0 then of_int lut_size / Kii' else 0),
      last_mclk_frequency = target_mclk_frequency,
      verbose = verbose'\<rparr>"

definition get_expected_mclk_count_inc :: "sw_pll_ctrl \<Rightarrow> real" where
  "get_expected_mclk_count_inc self = expected_mclk_count_inc_float self"

definition get_error :: "sw_pll_ctrl \<Rightarrow> real" where
  "get_error self = error self"

text \<open>
  The clamped integral terms of \<^verbatim>\<open>do_control\<close> (lines 392, 393, 396 and 397), as
  functions of the object after the accumulators have been updated.
\<close>

definition error_i :: "sw_pll_ctrl \<Rightarrow> real" where
  "error_i self =
     np_clip (Ki self * error_accum self) (- i_windup_limit self) (i_windup_limit self)"

definition error_ii :: "sw_pll_ctrl \<Rightarrow> real" where
  "error_ii self =
     np_clip (Kii self * error_accum_accum self) (- ii_windup_limit self) (ii_windup_limit self)"

text \<open>
  \<^verbatim>\<open>do_control\<close> (lines 370 to 410). The division by \<^verbatim>\<open>period_fraction\<close> comes before
  any assignment to an attribute. The second \<^verbatim>\<open>if self.verbose\<close> (lines 405 and 406)
  formats \<^verbatim>\<open>self.expected_mclk_count\<close> and \<^verbatim>\<open>self.mclk_count\<close>, attributes that no method
  of the class ever sets: there the call raises \<^verbatim>\<open>AttributeError\<close>, after the
  attributes above have been assigned.
\<close>

definition do_control ::
  "('m \<Rightarrow> real \<Rightarrow> 'm \<times> (py_error + 'r)) \<Rightarrow> sw_pll_ctrl \<times> 'm \<Rightarrow> real \<Rightarrow> real
     \<Rightarrow> (sw_pll_ctrl \<times> 'm) \<times> (py_error + 'r)" where
  "do_control lut_lookup_function sm mclk_count_float period_fraction =
     (let self = fst sm; m = snd sm;
          mclk_count_int = py_int mclk_count_float;
          mclk_count_inc = mclk_count_int - mclk_count_old self
      in if period_fraction = 0 then ((self, m), Inl ZeroDivisionError)
         else
           let mclk_count_inc = of_int mclk_count_inc / period_fraction;
               self = self\<lparr>mclk_count_old := mclk_count_int\<rparr>;
               self = self\<lparr>expected_mclk_count_float :=
                              expected_mclk_count_float self + expected_mclk_count_inc_float self\<rparr>;
               self = self\<lparr>ref_clk_count := ref_clk_count self + ref_to_loop_call_rate self\<rparr>;
               error' = mclk_count_inc - of_int (py_int (expected_mclk_count_inc_float self));
               self = self\<lparr>error_accum := error_accum self + error'\<rparr>;
               self = self\<lparr>error_accum_accum := error_accum_accum self + error_accum self\<rparr>;
               error_p = Kp self * error';
               self = self\<lparr>error := error_p + error_i self + error_ii self\<rparr>
           in if verbose self then ((self, m), Inl AttributeError)
              else
                (case lut_lookup_function m (error self) of
                   (m', r) \<Rightarrow> ((self, m'), r)))"

subsection \<open>The control loop driver\<close>

text \<open>
  The loop of \<^verbatim>\<open>run_sim\<close> (lines 434 to 447) calls \<^verbatim>\<open>do_control\<close> once per iteration; its
  stimulus (the simulated count with random jitter) is the list of inputs here. An
  exception ends the loop.
\<close>

fun run_ticks ::
  "('m \<Rightarrow> real \<Rightarrow> 'm \<times> (py_error + 'r)) \<Rightarrow> sw_pll_ctrl \<times> 'm \<Rightarrow> (real \<times> real) list
     \<Rightarrow> (sw_pll_ctrl \<times> 'm) \<times> (py_error + 'r list)" where
  "run_ticks lut_lookup_function sm [] = (sm, Inr [])"
| "run_ticks lut_lookup_function sm ((mclk_count_float, period_fraction) # ticks) =
     (case do_control lut_lookup_function sm mclk_count_float period_fraction of
        (sm', Inl e) \<Rightarrow> (sm', Inl e)
      | (sm', Inr r) \<Rightarrow>
          (case run_ticks lut_lookup_function sm' ticks of
             (sm'', Inl e) \<Rightarrow> (sm'', Inl e)
           | (sm'', Inr rs) \<Rightarrow> (sm'', Inr (r # rs))))"

section \<open>Notions of the specification\<close>

subsection \<open>The frequency model\<close>

text \<open>The intermediate (VCO) frequency that \<^verbatim>\<open>calc_frequency\<close> checks.\<close>

definition vco_freq :: "'a app_pll_frac_calc_scheme \<Rightarrow> real" where
  "vco_freq self = input_frequency self * (val (F self) + 1) / 2 / (val (R self) + 1)"

text \<open>
  The preconditions of the frequency model as the specification lists them: the ranges of
  \<open>F\<close>, \<open>R\<close> and \<open>OD\<close>, \<open>f < p\<close>, and integer fields.
\<close>

definition preconditions :: "'a app_pll_frac_calc_scheme \<Rightarrow> bool" where
  "preconditions self \<longleftrightarrow>
     1 \<le> val (F self) \<and> val (F self) \<le> 8191 \<and>
     0 \<le> val (R self) \<and> val (R self) \<le> 63 \<and>
     0 \<le> val (OD self) \<and> val (OD self) \<le> 7 \<and>
     val (f self) < val (p self) \<and>
     type_is_int (F self) \<and> type_is_int (R self) \<and> type_is_int (OD self) \<and>
     type_is_int (f self) \<and> type_is_int (p self)"

definition vco_in_range :: "'a app_pll_frac_calc_scheme \<Rightarrow> bool" where
  "vco_in_range self \<longleftrightarrow> 360000000 \<le> vco_freq self \<and> vco_freq self \<le> 1800000000"

definition config_checks :: "'a app_pll_frac_calc_scheme \<Rightarrow> bool" where
  "config_checks self \<longleftrightarrow> preconditions self \<and> vco_in_range self"

text \<open>A configuration check fails: the cases that the specification enumerates.\<close>

definition check_fails :: "'a app_pll_frac_calc_scheme \<Rightarrow> bool" where
  "check_fails self \<longleftrightarrow>
     val (F self) < 1 \<or> val (F self) > 8191 \<or>
     val (R self) < 0 \<or> val (R self) > 63 \<or>
     val (OD self) < 0 \<or> val (OD self) > 7 \<or>
     \<not> type_is_int (F self) \<or> \<not> type_is_int (R self) \<or> \<not> type_is_int (OD self) \<or>
     \<not> type_is_int (f self) \<or> \<not> type_is_int (p self) \<or>
     val (f self) \<ge> val (p self) \<or>
     vco_freq self < 360000000 \<or> vco_freq self > 1800000000"

text \<open>The formula of the specification for the output frequency.\<close>

definition formula :: "'a app_pll_frac_calc_scheme \<Rightarrow> real" where
  "formula self =
     input_frequency self * (val (F self) + 1 + (val (f self) + 1) / (val (p self) + 1))
       / 2 / (val (R self) + 1) / (val (OD self) + 1) / (2 * (val (ACD self) + 1))"

subsection \<open>The mapper\<close>

text \<open>The set point, the clamped index and the status that the specification describes.\<close>

definition set_point_of :: "nat \<Rightarrow> int \<Rightarrow> int" where
  "set_point_of n e = int n div 2 - e"

definition clamped_index :: "nat \<Rightarrow> int \<Rightarrow> nat" where
  "clamped_index n e =
     (if set_point_of n e < 0 then 0
      else if set_point_of n e \<ge> int n then n - 1
      else nat (set_point_of n e))"

definition reported_status :: "nat \<Rightarrow> int \<Rightarrow> int" where
  "reported_status n e =
     (if set_point_of n e < 0 then -1
      else if set_point_of n e \<ge> int n then 1
      else 0)"

definition reported_status_name :: "nat \<Rightarrow> int \<Rightarrow> string" where
  "reported_status_name n e =
     (if set_point_of n e < 0 then ''UNLOCKED LOW''
      else if set_point_of n e \<ge> int n then ''UNLOCKED HIGH''
      else ''LOCKED'')"

text \<open>
  A valid table entry decodes to \<open>f < p\<close>. A mapper is ready for a tick when its fixed
  fields pass the checks of \<^verbatim>\<open>calc_frequency\<close>, the last divisor is not zero, and its
  table is not empty and holds valid entries only.
\<close>

definition lut_entry_valid :: "16 word \<Rightarrow> bool" where
  "lut_entry_valid w \<longleftrightarrow> fst (reg_to_frac (uint w)) < snd (reg_to_frac (uint w))"

definition fixed_fields_valid :: "error_to_pll_output_frequency \<Rightarrow> bool" where
  "fixed_fields_valid self \<longleftrightarrow>
     1 \<le> val (F self) \<and> val (F self) \<le> 8191 \<and> type_is_int (F self) \<and>
     0 \<le> val (R self) \<and> val (R self) \<le> 63 \<and> type_is_int (R self) \<and>
     0 \<le> val (OD self) \<and> val (OD self) \<le> 7 \<and> type_is_int (OD self) \<and>
     vco_in_range self \<and> val (ACD self) \<noteq> -1"

definition mapper_ready :: "error_to_pll_output_frequency \<Rightarrow> bool" where
  "mapper_ready self \<longleftrightarrow>
     fixed_fields_valid self \<and> lut_reg self \<noteq> [] \<and> list_all lut_entry_valid (lut_reg self)"

subsection \<open>The register table\<close>

text \<open>
  An entry of the header: its register, its index and the outcome of \<^verbatim>\<open>float\<close> on its
  fraction. A header as the generator writes it has the declaration of the table with
  its size, then one line per entry.
\<close>

type_synonym lut_entry = "nat \<times> nat \<times> real option"




definition decl_line :: "nat \<Rightarrow> header_line" where
  "decl_line n = \<lparr>regex_ne = Some n, regex_fr = None\<rparr>"

definition entry_line :: "lut_entry \<Rightarrow> header_line" where
  "entry_line e = \<lparr>regex_ne = None, regex_fr = Some e\<rparr>"

definition header_of :: "nat \<Rightarrow> lut_entry list \<Rightarrow> header_line list" where
  "header_of n entries = decl_line n # map entry_line entries"










subsection \<open>The controller\<close>

text \<open>
  The raw error of a tick (lines 377 to 386), the object after the accumulators have been
  updated (lines 381 to 389), and the object after line 399.
\<close>

definition raw_error :: "sw_pll_ctrl \<Rightarrow> real \<Rightarrow> real \<Rightarrow> real" where
  "raw_error self mclk_count_float period_fraction =
     of_int (py_int mclk_count_float - mclk_count_old self) / period_fraction
       - of_int (py_int (expected_mclk_count_inc_float self))"

definition accumulated :: "sw_pll_ctrl \<Rightarrow> real \<Rightarrow> real \<Rightarrow> sw_pll_ctrl" where
  "accumulated self mclk_count_float period_fraction =
     self\<lparr>mclk_count_old := py_int mclk_count_float,
          expected_mclk_count_float := expected_mclk_count_float self + expected_mclk_count_inc_float self,
          ref_clk_count := ref_clk_count self + ref_to_loop_call_rate self,
          error_accum := error_accum self + raw_error self mclk_count_float period_fraction,
          error_accum_accum := error_accum_accum self
             + (error_accum self + raw_error self mclk_count_float period_fraction)\<rparr>"

definition ctrl_after :: "sw_pll_ctrl \<Rightarrow> real \<Rightarrow> real \<Rightarrow> sw_pll_ctrl" where
  "ctrl_after self mclk_count_float period_fraction =
     (let a = accumulated self mclk_count_float period_fraction
      in a\<lparr>error := Kp self * raw_error self mclk_count_float period_fraction
                        + error_i a + error_ii a\<rparr>)"

text \<open>The attributes that no tick assigns.\<close>

definition gains_fixed :: "sw_pll_ctrl \<Rightarrow> sw_pll_ctrl \<Rightarrow> bool" where
  "gains_fixed s s' \<longleftrightarrow>
     Kp s' = Kp s \<and> Ki s' = Ki s \<and> Kii s' = Kii s \<and>
     i_windup_limit s' = i_windup_limit s \<and> ii_windup_limit s' = ii_windup_limit s \<and>
     expected_mclk_count_inc_float s' = expected_mclk_count_inc_float s \<and>
     multiplier s' = multiplier s \<and> ref_to_loop_call_rate s' = ref_to_loop_call_rate s \<and>
     verbose s' = verbose s"

text \<open>
  A stimulus for the driver: \<open>n\<close> ticks at period fraction 1 whose measured count
  advances by \<open>d\<close> each time, starting after the count \<open>c\<close>.
\<close>

fun steady_ticks :: "int \<Rightarrow> int \<Rightarrow> nat \<Rightarrow> (real \<times> real) list" where
  "steady_ticks c d 0 = []"
| "steady_ticks c d (Suc n) = (of_int (c + d), 1) # steady_ticks (c + d) d n"

subsection \<open>Example configurations\<close>

text \<open>
  A 24 MHz crystal with \<open>F = 100\<close>, \<open>R = 0\<close>, \<open>OD = 1\<close>, \<open>ACD = 24\<close> and a table of three
  entries, for the fractions 1/3, 1/2 and 2/3: the outputs are 12.16, 12.18 and 12.20 MHz.
\<close>

definition example_entries :: "lut_entry list" where
  "example_entries =
     [(0x0002, 0, Some (3333 / 10000)), (0x0001, 1, Some (5000 / 10000)),
      (0x0102, 2, Some (6667 / 10000))]"

definition example_pll :: error_to_pll_output_frequency where
  "example_pll =
     \<lparr>input_frequency = 24000000, F = PyInt 100, R = PyInt 0, OD = PyInt 1, ACD = PyInt 24,
      f = PyInt 0, p = PyInt 1, output_frequency = Some 12180000, lock_status_state = 0,
      lut_reg = [0x0002, 0x0001, 0x0102], min_frac = 3333 / 10000, max_frac = 6667 / 10000\<rparr>"


text \<open>Fields that pass every range check, with a VCO frequency of 24 MHz.\<close>

definition low_vco_pll :: app_pll_frac_calc where
  "low_vco_pll =
     \<lparr>input_frequency = 24000000, F = PyInt 1, R = PyInt 0, OD = PyInt 0, ACD = PyInt 0,
      f = PyInt 0, p = PyInt 1, output_frequency = None, lock_status_state = 0\<rparr>"

text \<open>Fields that pass every check, with \<open>ACD = -1\<close>.\<close>

definition zero_acd_pll :: app_pll_frac_calc where
  "zero_acd_pll =
     \<lparr>input_frequency = 24000000, F = PyInt 100, R = PyInt 0, OD = PyInt 1, ACD = PyInt (- 1),
      f = PyInt 0, p = PyInt 1, output_frequency = None, lock_status_state = 0\<rparr>"

section \<open>Properties\<close>

subsection \<open>The example configuration\<close>

lemma example_init:
  "error_to_pll_output_frequency_init (header_of 3 example_entries) 24000000
     (PyInt 100) (PyInt 0) (PyInt 1) (PyInt 24) (PyInt 0) (PyInt 1) = Inr example_pll"
  by (simp add: error_to_pll_output_frequency_init_def app_pll_frac_calc_init_def
      calc_frequency_def parse_lut_h_file_init_def header_of_def decl_line_def entry_line_def
      np_setitem_def example_entries_def example_pll_def Let_def numeral_3_eq_3)

subsection \<open>Decoding a packed register\<close>

lemma and_ff_mod: "(r::int) AND 0xff = r mod 256"
proof -
  have "r AND 0xff = take_bit 8 r"
    by (simp add: take_bit_eq_mask mask_eq_exp_minus_1)
  then show ?thesis
    by (simp add: take_bit_eq_mod)
qed

lemma and_ff00_drop: "drop_bit 8 ((r::int) AND 0xff00) = (r div 256) mod 256"
proof -
  have "drop_bit 8 (r AND 0xff00) = drop_bit 8 r AND drop_bit 8 0xff00"
    by (simp add: drop_bit_and)
  also have "drop_bit 8 (0xff00::int) = 0xff"
    by (simp add: drop_bit_eq_div)
  finally show ?thesis
    by (simp add: and_ff_mod drop_bit_eq_div)
qed

lemma repack: "push_bit 8 ((r div 256) mod 256) OR (r mod 256) = (r::int) mod 65536"
proof -
  have "push_bit 8 ((r div 256) mod 256) OR (r mod 256)
          = push_bit 8 (take_bit 8 (drop_bit 8 r)) OR take_bit 8 r"
    by (simp add: take_bit_eq_mod drop_bit_eq_div)
  also have "\<dots> = take_bit 16 r"
    by (rule bit_eqI) (auto simp add: bit_simps)
  finally show ?thesis by (simp add: take_bit_eq_mod)
qed

lemma uint16_range: "0 \<le> uint (r::16 word) \<and> uint r < 65536"
  using uint_bounded [of r] by simp

lemma high_byte: "(uint (r::16 word) div 256) mod 256 = uint r div 256"
proof -
  have "uint r div 256 < 256" using uint16_range [of r] by simp
  moreover have "0 \<le> uint r div 256" by (simp add: pos_imp_zdiv_nonneg_iff)
  ultimately show ?thesis by simp
qed

lemma reg_to_frac_div_mod: "reg_to_frac (uint (r::16 word)) = (uint r div 256, uint r mod 256)"
  by (simp only: reg_to_frac_def and_ff00_drop and_ff_mod high_byte)

text \<open>
  Claim C8. For every 16 bit register value \<open>r\<close>, \<^verbatim>\<open>reg_to_frac\<close> returns the high byte
  \<open>(r & 0xff00) >> 8\<close> as the fractional multiplier and the low byte \<open>r & 0xff\<close> as the
  fractional divider; both are bytes, and packing them again as \<open>(f << 8) | p\<close> gives
  \<open>r\<close> back.
\<close>

theorem reg_to_frac_round_trip:
  fixes r :: "16 word"
  shows "reg_to_frac (uint r) = (drop_bit 8 (uint r AND 0xff00), uint r AND 0xff) \<and>
         reg_to_frac (uint r) = (uint r div 256, uint r mod 256) \<and>
         0 \<le> fst (reg_to_frac (uint r)) \<and> fst (reg_to_frac (uint r)) < 256 \<and>
         0 \<le> snd (reg_to_frac (uint r)) \<and> snd (reg_to_frac (uint r)) < 256 \<and>
         push_bit 8 (fst (reg_to_frac (uint r))) OR snd (reg_to_frac (uint r)) = uint r"
proof -
  have "push_bit 8 (uint r div 256) OR (uint r mod 256) = uint r mod 65536"
    using repack [of "uint r"] by (simp only: high_byte)
  moreover have "uint r mod 65536 = uint r" using uint16_range [of r] by simp
  moreover have "uint r div 256 < 256" using uint16_range [of r] by simp
  moreover have "0 \<le> uint r div 256" by (simp add: pos_imp_zdiv_nonneg_iff)
  moreover have "reg_to_frac (uint r) = (drop_bit 8 (uint r AND 0xff00), uint r AND 0xff)"
    by (simp only: reg_to_frac_def)
  ultimately show ?thesis
    by (simp add: reg_to_frac_div_mod)
qed

theorem reg_to_frac_round_trip_witness:
  "reg_to_frac (uint (0x1234 :: 16 word)) = (0x12, 0x34) \<and>
   push_bit 8 (0x12 :: int) OR 0x34 = 0x1234"
  using reg_to_frac_round_trip [of "0x1234"] by simp

subsection \<open>The frequency model\<close>

lemma check_fails_iff: "check_fails self \<longleftrightarrow> \<not> config_checks self"
  by (auto simp add: check_fails_def config_checks_def preconditions_def vco_in_range_def)

lemma calc_frequency_ok:
  assumes "config_checks self" "val (p self) \<noteq> -1" "val (ACD self) \<noteq> -1"
  shows "calc_frequency self = (self\<lparr>output_frequency := Some (formula self)\<rparr>, Inr (formula self))"
proof -
  have a: "val (p self) + 1 \<noteq> 0" "2 * (val (ACD self) + 1) \<noteq> 0"
    using assms(2,3) by auto
  show ?thesis
    using assms(1) a
    by (simp add: calc_frequency_def config_checks_def preconditions_def vco_in_range_def
        vco_freq_def formula_def Let_def)
qed

lemma calc_frequency_assert:
  assumes "\<not> config_checks self"
  shows "\<exists>a. calc_frequency self = (self, Inl (AssertionError a))"
  using assms
  by (auto simp add: calc_frequency_def config_checks_def preconditions_def vco_in_range_def
      vco_freq_def Let_def)

lemma calc_frequency_zero_div:
  assumes "config_checks self" "val (p self) = -1 \<or> val (ACD self) = -1"
  shows "calc_frequency self = (self, Inl ZeroDivisionError)"
  using assms
  by (auto simp add: calc_frequency_def config_checks_def preconditions_def vco_in_range_def
      vco_freq_def Let_def)

lemma calc_frequency_output:
  "calc_frequency self = (self', Inr freq) \<Longrightarrow> output_frequency self' = Some freq"
  by (auto simp add: calc_frequency_def Let_def split: if_splits)

lemma config_checks_hidden:
  "config_checks (self\<lparr>output_frequency := x, lock_status_state := y\<rparr>) = config_checks self"
  "formula (self\<lparr>output_frequency := x, lock_status_state := y\<rparr>) = formula self"
  by (simp_all add: config_checks_def preconditions_def vco_in_range_def vco_freq_def formula_def)

text \<open>
  Claim C5, amended. For every configuration that satisfies the preconditions (\<open>F\<close> in
  1..8191, \<open>R\<close> in 0..63, \<open>OD\<close> in 0..7, \<open>f < p\<close>, integer fields) and whose VCO frequency
  lies in [360e6, 1800e6], with \<open>p \<noteq> -1\<close> and \<open>ACD \<noteq> -1\<close>, \<^verbatim>\<open>calc_frequency\<close> returns
  exactly the value of the formula. The only attribute it writes is the cached
  \<^verbatim>\<open>output_frequency\<close>: a second call returns the same frequency and leaves the same
  object, and the result does not depend on the attributes that are not in the formula.
\<close>

theorem calc_frequency_formula:
  assumes "preconditions self" and "vco_in_range self"
    and "val (p self) \<noteq> -1" and "val (ACD self) \<noteq> -1"
  shows "calc_frequency self = (self\<lparr>output_frequency := Some (formula self)\<rparr>, Inr (formula self)) \<and>
         calc_frequency (fst (calc_frequency self)) = calc_frequency self \<and>
         snd (calc_frequency (self\<lparr>output_frequency := x, lock_status_state := y\<rparr>)) = Inr (formula self)"
proof -
  have c: "config_checks self" using assms(1,2) by (simp add: config_checks_def)
  have 1: "calc_frequency self = (self\<lparr>output_frequency := Some (formula self)\<rparr>, Inr (formula self))"
    using c assms(3,4) by (rule calc_frequency_ok)
  let ?s = "self\<lparr>output_frequency := Some (formula self)\<rparr>"
  have "config_checks ?s" "formula ?s = formula self" "val (p ?s) \<noteq> -1" "val (ACD ?s) \<noteq> -1"
    using c assms(3,4)
    by (simp_all add: config_checks_def preconditions_def vco_in_range_def vco_freq_def formula_def)
  then have 2: "calc_frequency ?s = (?s, Inr (formula self))"
    using calc_frequency_ok [of ?s] by simp
  let ?t = "self\<lparr>output_frequency := x, lock_status_state := y\<rparr>"
  have "config_checks ?t" "val (p ?t) \<noteq> -1" "val (ACD ?t) \<noteq> -1"
    using c assms(3,4) by (simp_all add: config_checks_hidden)
  then have 3: "snd (calc_frequency ?t) = Inr (formula self)"
    using calc_frequency_ok [of ?t] by (simp add: config_checks_hidden)
  show ?thesis using 1 2 3 by simp
qed

theorem calc_frequency_formula_witness:
  "preconditions example_pll \<and> vco_in_range example_pll \<and>
   calc_frequency example_pll = (example_pll, Inr 12180000)"
proof -
  have h: "preconditions example_pll" "vco_in_range example_pll"
    "val (p example_pll) \<noteq> -1" "val (ACD example_pll) \<noteq> -1"
    by (simp_all add: example_pll_def preconditions_def vco_in_range_def vco_freq_def)
  show ?thesis
    using h(1,2) calc_frequency_formula [OF h, where x = None and y = 0]
    by (simp add: example_pll_def formula_def)
qed

text \<open>
  Claim C5 as stated fails: these fields satisfy every listed precondition, the VCO
  frequency is 24 MHz, and \<^verbatim>\<open>calc_frequency\<close> raises instead of returning the formula.
\<close>

theorem calc_frequency_formula_counterexample:
  "preconditions low_vco_pll \<and>
   calc_frequency low_vco_pll = (low_vco_pll, Inl (AssertionError Invalid_VCO_freq))"
  by (simp add: low_vco_pll_def preconditions_def calc_frequency_def)

text \<open>
  Claim C7, amended. \<^verbatim>\<open>calc_frequency\<close> raises \<^verbatim>\<open>AssertionError\<close> if and only if a
  configuration check fails (\<open>F\<close> outside 1..8191, \<open>R\<close> outside 0..63, \<open>OD\<close> outside 0..7, a
  non-integer \<open>F\<close>, \<open>R\<close>, \<open>OD\<close>, \<open>f\<close> or \<open>p\<close>, \<open>f \<ge> p\<close>, or a VCO frequency outside
  [360e6, 1800e6]). It raises some exception if and only if a check fails or the formula
  divides by zero (\<open>p = -1\<close> or \<open>ACD = -1\<close>). When it raises it returns no frequency and
  leaves the object as it was.
\<close>

theorem calc_frequency_raises_iff:
  "((\<exists>a. snd (calc_frequency self) = Inl (AssertionError a)) \<longleftrightarrow> check_fails self) \<and>
   ((\<exists>e. snd (calc_frequency self) = Inl e) \<longleftrightarrow>
      check_fails self \<or> val (p self) = -1 \<or> val (ACD self) = -1) \<and>
   ((\<exists>e. snd (calc_frequency self) = Inl e) \<longleftrightarrow>
      fst (calc_frequency self) = self \<and> (\<forall>v. snd (calc_frequency self) \<noteq> Inr v))"
proof (cases "config_checks self")
  case False
  then obtain a where "calc_frequency self = (self, Inl (AssertionError a))"
    using calc_frequency_assert by blast
  then show ?thesis using False by (simp add: check_fails_iff)
next
  case True
  show ?thesis
  proof (cases "val (p self) = -1 \<or> val (ACD self) = -1")
    case z: True
    have "calc_frequency self = (self, Inl ZeroDivisionError)"
      using True z by (rule calc_frequency_zero_div)
    then show ?thesis using True z by (simp add: check_fails_iff)
  next
    case nz: False
    then have "calc_frequency self = (self\<lparr>output_frequency := Some (formula self)\<rparr>, Inr (formula self))"
      using True calc_frequency_ok [of self] by simp
    then show ?thesis using True nz by (simp add: check_fails_iff)
  qed
qed

theorem calc_frequency_raises_iff_witness:
  "check_fails low_vco_pll \<and> (\<exists>a. snd (calc_frequency low_vco_pll) = Inl (AssertionError a))"
proof -
  have "check_fails low_vco_pll"
    by (simp add: check_fails_def low_vco_pll_def vco_freq_def)
  then show ?thesis using calc_frequency_raises_iff [of low_vco_pll] by simp
qed

text \<open>
  Claim C7 as stated fails: with \<open>ACD = -1\<close> no configuration check fails and
  \<^verbatim>\<open>calc_frequency\<close> raises \<^verbatim>\<open>ZeroDivisionError\<close>.
\<close>

theorem calc_frequency_raises_iff_counterexample:
  "\<not> check_fails zero_acd_pll \<and>
   calc_frequency zero_acd_pll = (zero_acd_pll, Inl ZeroDivisionError)"
  by (simp add: check_fails_def zero_acd_pll_def vco_freq_def calc_frequency_def)

subsection \<open>The mapper\<close>

lemma py_int_of_int: "py_int (of_int e) = e"
  by (simp add: py_int_def)

lemma clamped_index_less: "0 < n \<Longrightarrow> clamped_index n e < n"
  by (auto simp add: clamped_index_def)

lemma np_getitem_nat: "i < length xs \<Longrightarrow> np_getitem xs (int i) = Inr (xs ! i)"
  by (simp add: np_getitem_def)

lemma mapper_index:
  assumes "0 < n"
  shows "(if int n div 2 - e < 0 then (0, -1)
          else if int n div 2 - e \<ge> int n then (int n - 1, 1)
          else (int n div 2 - e, 0)) = (int (clamped_index n e), reported_status n e)"
  using assms by (auto simp add: clamped_index_def reported_status_def set_point_of_def)

lemma mapper_eq:
  assumes "lut_reg self \<noteq> []"
  shows "get_output_freqency_from_error self (of_int e) =
      (case calc_frequency
              (self\<lparr>f := PyInt (fst (reg_to_frac (uint (lut_reg self ! clamped_index (length (lut_reg self)) e)))),
                    p := PyInt (snd (reg_to_frac (uint (lut_reg self ! clamped_index (length (lut_reg self)) e))))\<rparr>) of
         (self', Inl err) \<Rightarrow> (self', Inl err)
       | (self', Inr freq) \<Rightarrow> (self', Inr (output_frequency self', reported_status (length (lut_reg self)) e)))"
proof -
  let ?n = "length (lut_reg self)"
  have n: "0 < ?n" using assms by simp
  have g: "np_getitem (lut_reg self) (int (clamped_index ?n e)) = Inr (lut_reg self ! clamped_index ?n e)"
    by (rule np_getitem_nat) (rule clamped_index_less [OF n])
  show ?thesis
    unfolding get_output_freqency_from_error_def get_lut_def py_int_of_int Let_def
      mapper_index [OF n] g
    by (simp add: g update_pll_frac_def get_output_freqency_def split_beta
        split: sum.splits prod.splits)
qed

lemma status_name:
  "lock_status_lookup (reported_status n e) = Some (reported_status_name n e)"
  by (simp add: lock_status_lookup_def reported_status_def reported_status_name_def)

text \<open>
  Claim C1. For every integer error \<open>e\<close> and every non-empty table of size \<open>n\<close>, the mapper
  computes the set point \<open>n div 2 - e\<close>; below 0 it uses index 0 and reports UNLOCKED LOW,
  at \<open>n\<close> or above it uses index \<open>n - 1\<close> and reports UNLOCKED HIGH, otherwise it uses the
  set point and reports LOCKED. The clamped index is inside the table, and what the mapper
  returns is what \<^verbatim>\<open>calc_frequency\<close> returns for the pair decoded from the entry at that
  index, together with the status.
\<close>

theorem get_output_freqency_from_error_clamps:
  assumes "lut_reg self \<noteq> []"
  shows "clamped_index (length (lut_reg self)) e < length (lut_reg self) \<and>
     get_output_freqency_from_error self (of_int e) =
      (case calc_frequency
              (self\<lparr>f := PyInt (fst (reg_to_frac (uint (lut_reg self ! clamped_index (length (lut_reg self)) e)))),
                    p := PyInt (snd (reg_to_frac (uint (lut_reg self ! clamped_index (length (lut_reg self)) e))))\<rparr>) of
         (self', Inl err) \<Rightarrow> (self', Inl err)
       | (self', Inr freq) \<Rightarrow> (self', Inr (Some freq, reported_status (length (lut_reg self)) e))) \<and>
     lock_status_lookup (reported_status (length (lut_reg self)) e)
       = Some (reported_status_name (length (lut_reg self)) e)"
proof -
  have "get_output_freqency_from_error self (of_int e) =
      (case calc_frequency
              (self\<lparr>f := PyInt (fst (reg_to_frac (uint (lut_reg self ! clamped_index (length (lut_reg self)) e)))),
                    p := PyInt (snd (reg_to_frac (uint (lut_reg self ! clamped_index (length (lut_reg self)) e))))\<rparr>) of
         (self', Inl err) \<Rightarrow> (self', Inl err)
       | (self', Inr freq) \<Rightarrow> (self', Inr (Some freq, reported_status (length (lut_reg self)) e)))"
    unfolding mapper_eq [OF assms]
    by (auto split: prod.splits sum.splits dest: calc_frequency_output)
  then show ?thesis
    using assms by (simp add: clamped_index_less status_name)
qed

theorem get_output_freqency_from_error_clamps_witness:
  "lut_reg example_pll \<noteq> [] \<and>
   get_output_freqency_from_error example_pll (of_int 2) =
     (example_pll\<lparr>f := PyInt 0, p := PyInt 2, output_frequency := Some 12160000\<rparr>,
      Inr (Some 12160000, - 1)) \<and>
   lock_status_lookup (- 1) = Some ''UNLOCKED LOW''"
proof -
  have h: "lut_reg example_pll \<noteq> []" by (simp add: example_pll_def)
  have i: "clamped_index 3 2 = 0" "reported_status 3 2 = - 1"
    "reported_status_name 3 2 = ''UNLOCKED LOW''"
    by (simp_all add: clamped_index_def reported_status_def reported_status_name_def set_point_of_def)
  have l: "length (lut_reg example_pll) = 3" "lut_reg example_pll ! 0 = 2"
    by (simp_all add: example_pll_def)
  have r: "reg_to_frac (uint (2 :: 16 word)) = (0, 2)" by (simp add: reg_to_frac_def)
  show ?thesis
    using h get_output_freqency_from_error_clamps [OF h, of 2]
    unfolding l i r
    by (simp add: example_pll_def calc_frequency_def)
qed

subsection \<open>The controller\<close>

lemma do_control_zero: "do_control lk sm c 0 = (sm, Inl ZeroDivisionError)"
  by (simp add: do_control_def Let_def)

lemma do_control_nonzero:
  assumes "pf \<noteq> 0"
  shows "do_control lk sm c pf =
     (if verbose (fst sm) then ((ctrl_after (fst sm) c pf, snd sm), Inl AttributeError)
      else ((ctrl_after (fst sm) c pf, fst (lk (snd sm) (error (ctrl_after (fst sm) c pf)))),
            snd (lk (snd sm) (error (ctrl_after (fst sm) c pf)))))"
  using assms
  by (simp add: do_control_def ctrl_after_def accumulated_def raw_error_def error_i_def
      error_ii_def Let_def split_beta)

lemma do_control_ctrl:
  "fst (fst (do_control lk sm c pf)) = (if pf = 0 then fst sm else ctrl_after (fst sm) c pf)"
  by (simp add: do_control_zero do_control_nonzero)

lemma ctrl_after_fields:
  "Kp (ctrl_after s c pf) = Kp s"
  "Ki (ctrl_after s c pf) = Ki s"
  "Kii (ctrl_after s c pf) = Kii s"
  "i_windup_limit (ctrl_after s c pf) = i_windup_limit s"
  "ii_windup_limit (ctrl_after s c pf) = ii_windup_limit s"
  "expected_mclk_count_inc_float (ctrl_after s c pf) = expected_mclk_count_inc_float s"
  "multiplier (ctrl_after s c pf) = multiplier s"
  "ref_to_loop_call_rate (ctrl_after s c pf) = ref_to_loop_call_rate s"
  "verbose (ctrl_after s c pf) = verbose s"
  "mclk_count_old (ctrl_after s c pf) = py_int c"
  "error_accum (ctrl_after s c pf) = error_accum s + raw_error s c pf"
  "error_accum_accum (ctrl_after s c pf) = error_accum_accum s + error_accum (ctrl_after s c pf)"
  by (simp_all add: ctrl_after_def accumulated_def Let_def)

lemma ctrl_after_error:
  "error (ctrl_after s c pf) =
     Kp s * raw_error s c pf + error_i (ctrl_after s c pf) + error_ii (ctrl_after s c pf)"
  by (simp add: ctrl_after_def accumulated_def error_i_def error_ii_def Let_def)

lemma gains_fixed_refl: "gains_fixed s s"
  by (simp add: gains_fixed_def)

lemma gains_fixed_trans: "gains_fixed s s' \<Longrightarrow> gains_fixed s' s'' \<Longrightarrow> gains_fixed s s''"
  by (simp add: gains_fixed_def)

lemma gains_fixed_do_control: "gains_fixed (fst sm) (fst (fst (do_control lk sm c pf)))"
  by (simp add: do_control_ctrl gains_fixed_def ctrl_after_fields)

lemma run_ticks_Cons_fst:
  "fst (run_ticks lk sm ((c, pf) # ticks)) =
     (case snd (do_control lk sm c pf) of
        Inl e \<Rightarrow> fst (do_control lk sm c pf)
      | Inr r \<Rightarrow> fst (run_ticks lk (fst (do_control lk sm c pf)) ticks))"
  by (simp split: prod.splits sum.splits)

lemma gains_fixed_run_ticks: "gains_fixed (fst sm) (fst (fst (run_ticks lk sm ticks)))"
proof (induction ticks arbitrary: sm)
  case Nil
  show ?case by (simp add: gains_fixed_refl)
next
  case (Cons t ticks)
  obtain c pf where t: "t = (c, pf)" by (cases t)
  let ?sm' = "fst (do_control lk sm c pf)"
  have step: "gains_fixed (fst sm) (fst ?sm')" by (rule gains_fixed_do_control)
  show ?case
  proof (cases "snd (do_control lk sm c pf)")
    case (Inl e)
    then show ?thesis using step by (simp only: t run_ticks_Cons_fst sum.case)
  next
    case (Inr r)
    have "gains_fixed (fst ?sm') (fst (fst (run_ticks lk ?sm' ticks)))" by (rule Cons.IH)
    with step have "gains_fixed (fst sm) (fst (fst (run_ticks lk ?sm' ticks)))"
      by (rule gains_fixed_trans)
    then show ?thesis using Inr by (simp only: t run_ticks_Cons_fst sum.case)
  qed
qed

lemma init_fields:
  "Kp (sw_pll_ctrl_init n mu ra kp ki kii c0 r0 vb) = kp"
  "Ki (sw_pll_ctrl_init n mu ra kp ki kii c0 r0 vb) = ki"
  "Kii (sw_pll_ctrl_init n mu ra kp ki kii c0 r0 vb) = kii"
  "i_windup_limit (sw_pll_ctrl_init n mu ra kp ki kii c0 r0 vb) = (if ki \<noteq> 0 then of_int n / ki else 0)"
  "ii_windup_limit (sw_pll_ctrl_init n mu ra kp ki kii c0 r0 vb) = (if kii \<noteq> 0 then of_int n / kii else 0)"
  "expected_mclk_count_inc_float (sw_pll_ctrl_init n mu ra kp ki kii c0 r0 vb) = mu * of_int ra"
  "verbose (sw_pll_ctrl_init n mu ra kp ki kii c0 r0 vb) = vb"
  "mclk_count_old (sw_pll_ctrl_init n mu ra kp ki kii c0 r0 vb) = c0"
  "error_accum (sw_pll_ctrl_init n mu ra kp ki kii c0 r0 vb) = 0"
  "error_accum_accum (sw_pll_ctrl_init n mu ra kp ki kii c0 r0 vb) = 0"
  by (simp_all add: sw_pll_ctrl_init_def)

lemma reachable_fields:
  assumes "sm = fst (run_ticks lk (sw_pll_ctrl_init n mu ra kp ki kii c0 r0 vb, m) ticks)"
  shows "Kp (fst sm) = kp" "Ki (fst sm) = ki" "Kii (fst sm) = kii"
    "i_windup_limit (fst sm) = (if ki \<noteq> 0 then of_int n / ki else 0)"
    "ii_windup_limit (fst sm) = (if kii \<noteq> 0 then of_int n / kii else 0)"
    "expected_mclk_count_inc_float (fst sm) = mu * of_int ra"
    "verbose (fst sm) = vb"
  using gains_fixed_run_ticks [of "(sw_pll_ctrl_init n mu ra kp ki kii c0 r0 vb, m)" lk ticks]
  unfolding assms gains_fixed_def by (simp_all add: init_fields)

lemma np_clip_abs: "\<bar>np_clip a (- l) l\<bar> \<le> \<bar>l\<bar>"
  by (simp add: np_clip_def min_def max_def abs_if)

lemma error_i_abs: "\<bar>error_i s\<bar> \<le> \<bar>i_windup_limit s\<bar>"
  by (simp add: error_i_def np_clip_abs)

lemma error_ii_abs: "\<bar>error_ii s\<bar> \<le> \<bar>ii_windup_limit s\<bar>"
  by (simp add: error_ii_def np_clip_abs)

lemma error_i_zero: "Ki s = 0 \<Longrightarrow> i_windup_limit s = 0 \<Longrightarrow> error_i s = 0"
  by (simp add: error_i_def np_clip_def)

lemma error_ii_zero: "Kii s = 0 \<Longrightarrow> ii_windup_limit s = 0 \<Longrightarrow> error_ii s = 0"
  by (simp add: error_ii_def np_clip_def)

lemma py_int_nonneg: "0 \<le> x \<Longrightarrow> py_int x = \<lfloor>x\<rfloor>"
  by (simp add: py_int_def)

lemma py_int_trunc: "\<bar>of_int (py_int x)\<bar> \<le> \<bar>x\<bar> \<and> \<bar>x - of_int (py_int x)\<bar> < 1"
  unfolding py_int_def by (cases "0 \<le> x") (simp_all, linarith+)

text \<open>
  Claim C2. After any sequence of ticks of a controller constructed with the gains \<open>Ki\<close>
  and \<open>Kii\<close> and a table size that is not negative, the integral terms that enter the
  total error of a tick are clamped: for a positive \<open>Ki\<close> the magnitude of \<open>term_i\<close>
  never exceeds \<open>LUT_size / Ki\<close>, for a positive \<open>Kii\<close> that of \<open>term_ii\<close> never exceeds
  \<open>LUT_size / Kii\<close>, and for any gain the magnitudes are bounded by \<open>|LUT_size / Ki|\<close>
  and \<open>|LUT_size / Kii|\<close>. The windup limits are \<open>LUT_size / Ki\<close> and \<open>LUT_size / Kii\<close>,
  and 0 for a gain that is 0.
\<close>

theorem integral_terms_clamped:
  assumes "sm = fst (run_ticks lk (sw_pll_ctrl_init lut_size mu ra kp ki kii c0 r0 vb, m) ticks)"
    and "pf \<noteq> 0"
    and "self' = fst (fst (do_control lk sm c pf))"
  shows "error self' = kp * raw_error (fst sm) c pf + error_i self' + error_ii self' \<and>
         (0 \<le> lut_size \<and> 0 < ki \<longrightarrow> \<bar>error_i self'\<bar> \<le> of_int lut_size / ki) \<and>
         (0 \<le> lut_size \<and> 0 < kii \<longrightarrow> \<bar>error_ii self'\<bar> \<le> of_int lut_size / kii) \<and>
         \<bar>error_i self'\<bar> \<le> \<bar>of_int lut_size / ki\<bar> \<and>
         \<bar>error_ii self'\<bar> \<le> \<bar>of_int lut_size / kii\<bar> \<and>
         i_windup_limit self' = (if ki \<noteq> 0 then of_int lut_size / ki else 0) \<and>
         ii_windup_limit self' = (if kii \<noteq> 0 then of_int lut_size / kii else 0)"
proof -
  note r = reachable_fields [OF assms(1)]
  have s: "self' = ctrl_after (fst sm) c pf"
    using assms(2,3) by (simp add: do_control_ctrl)
  have li: "i_windup_limit self' = (if ki \<noteq> 0 then of_int lut_size / ki else 0)"
    by (simp only: s ctrl_after_fields r)
  have lii: "ii_windup_limit self' = (if kii \<noteq> 0 then of_int lut_size / kii else 0)"
    by (simp only: s ctrl_after_fields r)
  have "\<bar>error_i self'\<bar> \<le> \<bar>i_windup_limit self'\<bar>" by (rule error_i_abs)
  then have bi: "\<bar>error_i self'\<bar> \<le> \<bar>of_int lut_size / ki\<bar>"
    unfolding li by (cases "ki = 0") simp_all
  have "\<bar>error_ii self'\<bar> \<le> \<bar>ii_windup_limit self'\<bar>" by (rule error_ii_abs)
  then have bii: "\<bar>error_ii self'\<bar> \<le> \<bar>of_int lut_size / kii\<bar>"
    unfolding lii by (cases "kii = 0") simp_all
  have pi: "0 \<le> lut_size \<and> 0 < ki \<longrightarrow> \<bar>error_i self'\<bar> \<le> of_int lut_size / ki"
  proof
    assume "0 \<le> lut_size \<and> 0 < ki"
    then have "0 \<le> real_of_int lut_size / ki" by simp
    then show "\<bar>error_i self'\<bar> \<le> of_int lut_size / ki" using bi by simp
  qed
  have pii: "0 \<le> lut_size \<and> 0 < kii \<longrightarrow> \<bar>error_ii self'\<bar> \<le> of_int lut_size / kii"
  proof
    assume "0 \<le> lut_size \<and> 0 < kii"
    then have "0 \<le> real_of_int lut_size / kii" by simp
    then show "\<bar>error_ii self'\<bar> \<le> of_int lut_size / kii" using bii by simp
  qed
  have e: "error self' = kp * raw_error (fst sm) c pf + error_i self' + error_ii self'"
    unfolding s using ctrl_after_error [of "fst sm" c pf] by (simp only: r)
  show ?thesis using e pi pii bi bii li lii by simp
qed

lemma first_tick:
  "ctrl_after (sw_pll_ctrl_init n mu ra kp ki kii c0 r0 vb) c pf =
     (let e = of_int (py_int c - c0) / pf - of_int (py_int (mu * of_int ra));
          li = (if ki \<noteq> 0 then of_int n / ki else 0);
          lii = (if kii \<noteq> 0 then of_int n / kii else 0)
      in (sw_pll_ctrl_init n mu ra kp ki kii c0 r0 vb)
           \<lparr>mclk_count_old := py_int c,
            expected_mclk_count_float := mu * of_int ra,
            ref_clk_count := c0 + ra,
            error_accum := e,
            error_accum_accum := e,
            error := kp * e + np_clip (ki * e) (- li) li + np_clip (kii * e) (- lii) lii\<rparr>)"
  by (simp add: ctrl_after_def accumulated_def raw_error_def error_i_def error_ii_def
      sw_pll_ctrl_init_def Let_def)

theorem integral_terms_clamped_witness:
  "(1::real) \<noteq> 0 \<and> (0::int) \<le> 3 \<and> (0::real) < 2 \<and>
   error_i (fst (fst (do_control get_output_freqency_from_error
      (sw_pll_ctrl_init 3 256 512 (1 / 10) 2 0 0 0 False, example_pll) 131172 1))) = 3 / 2 \<and>
   \<bar>error_i (fst (fst (do_control get_output_freqency_from_error
      (sw_pll_ctrl_init 3 256 512 (1 / 10) 2 0 0 0 False, example_pll) 131172 1)))\<bar>
     \<le> of_int 3 / 2"
proof -
  have h: "(1::real) \<noteq> 0" by simp
  have r: "(sw_pll_ctrl_init 3 256 512 (1 / 10) 2 0 0 0 False, example_pll)
             = fst (run_ticks get_output_freqency_from_error
                 (sw_pll_ctrl_init 3 256 512 (1 / 10) 2 0 0 0 False, example_pll) [])"
    by simp
  have v: "error_i (fst (fst (do_control get_output_freqency_from_error
      (sw_pll_ctrl_init 3 256 512 (1 / 10) 2 0 0 0 False, example_pll) 131172 1))) = 3 / 2"
    by (simp add: do_control_ctrl first_tick py_int_def Let_def error_i_def np_clip_def
        init_fields)
  show ?thesis
    using h v integral_terms_clamped [OF r h refl, of 131172] by simp
qed

text \<open>
  A gain that is negative makes the limit negative; \<^verbatim>\<open>np.clip\<close> is then called with a
  lower bound above the upper bound and returns the limit, whatever the accumulated
  error is.
\<close>

lemma np_clip_crossed: "l < 0 \<Longrightarrow> np_clip a (- l) l = l"
  by (simp add: np_clip_def)

text \<open>
  Claim C6. The expected increment is \<open>multiplier * ticks_per_call\<close>, fixed at
  construction and the same after any sequence of ticks. On a tick with a non-zero period
  fraction the raw error, which is what the tick adds to the accumulated error, is the
  count increment \<open>(measured_count - previous_measured_count) / period_fraction\<close> minus
  the floor of the expected increment, for an expected increment that is not negative, as
  the product of a frequency ratio and a call rate is. The code takes \<^verbatim>\<open>int\<close> of the
  expected increment, which is the floor there. The previous measured count is replaced
  by the new sample within the same tick.
\<close>

theorem raw_error_of_tick:
  assumes "sm = fst (run_ticks lk (sw_pll_ctrl_init lut_size mu ra kp ki kii c0 r0 vb, m) ticks)"
    and "pf \<noteq> 0"
    and "self' = fst (fst (do_control lk sm c pf))"
  shows "expected_mclk_count_inc_float (fst sm) = mu * of_int ra \<and>
         expected_mclk_count_inc_float self' = mu * of_int ra \<and>
         (0 \<le> mu * of_int ra \<longrightarrow>
            error_accum self' - error_accum (fst sm) =
              of_int (py_int c - mclk_count_old (fst sm)) / pf - of_int \<lfloor>mu * of_int ra\<rfloor>) \<and>
         error_accum self' - error_accum (fst sm) =
           of_int (py_int c - mclk_count_old (fst sm)) / pf - of_int (py_int (mu * of_int ra)) \<and>
         (0 \<le> mu * of_int ra \<longrightarrow> py_int (mu * of_int ra) = \<lfloor>mu * of_int ra\<rfloor>) \<and>
         mclk_count_old self' = py_int c"
proof -
  note r = reachable_fields [OF assms(1)]
  have s: "self' = ctrl_after (fst sm) c pf"
    using assms(2,3) by (simp add: do_control_ctrl)
  have 1: "expected_mclk_count_inc_float self' = mu * of_int ra"
    by (simp only: s ctrl_after_fields r)
  have 2: "error_accum self' - error_accum (fst sm) =
      of_int (py_int c - mclk_count_old (fst sm)) / pf - of_int (py_int (mu * of_int ra))"
    unfolding s by (simp add: ctrl_after_fields raw_error_def r)
  have 3: "mclk_count_old self' = py_int c"
    by (simp only: s ctrl_after_fields)
  have 4: "0 \<le> mu * of_int ra \<longrightarrow>
      error_accum self' - error_accum (fst sm) =
        of_int (py_int c - mclk_count_old (fst sm)) / pf - of_int \<lfloor>mu * of_int ra\<rfloor>"
    using 2 by (simp add: py_int_nonneg)
  show ?thesis using r(6) 1 2 3 4 by (simp add: py_int_nonneg)
qed

theorem raw_error_of_tick_witness:
  "(1::real) \<noteq> 0 \<and> (0::real) \<le> 256 * of_int 512 \<and>
   error_accum (fst (fst (do_control get_output_freqency_from_error
      (sw_pll_ctrl_init 3 256 512 (1 / 10) 2 0 0 0 False, example_pll) 131172 1))) = 100 \<and>
   mclk_count_old (fst (fst (do_control get_output_freqency_from_error
      (sw_pll_ctrl_init 3 256 512 (1 / 10) 2 0 0 0 False, example_pll) 131172 1))) = 131172"
proof -
  have h: "(1::real) \<noteq> 0" by simp
  have r: "(sw_pll_ctrl_init 3 256 512 (1 / 10) 2 0 0 0 False, example_pll)
             = fst (run_ticks get_output_freqency_from_error
                 (sw_pll_ctrl_init 3 256 512 (1 / 10) 2 0 0 0 False, example_pll) [])"
    by simp
  show ?thesis
    using raw_error_of_tick [OF r h refl, of 131172]
    by (simp add: init_fields py_int_def)
qed

text \<open>
  Claim C9. On a tick with a non-zero period fraction \<^verbatim>\<open>do_control\<close> stores
  \<^verbatim>\<open>int(mclk_count_float)\<close> as the previous measured count. \<^verbatim>\<open>int\<close> truncates towards
  zero: the stored integer is not larger in magnitude than the measured count and less
  than 1 away from it. The count increment is computed from truncated values: the raw
  error of the tick uses the truncated count and the stored previous count, and the raw
  error of the next tick uses the two truncated counts, so no fractional part is carried
  over.
\<close>

theorem measured_count_truncated:
  assumes "pf \<noteq> 0" and "pf2 \<noteq> 0"
    and "self' = fst (fst (do_control lk (self, m) c pf))"
    and "self'' = fst (fst (do_control lk2 (self', m2) c2 pf2))"
  shows "mclk_count_old self' = py_int c \<and>
         \<bar>of_int (py_int c)\<bar> \<le> \<bar>c\<bar> \<and> \<bar>c - of_int (py_int c)\<bar> < 1 \<and>
         error_accum self' - error_accum self =
           of_int (py_int c - mclk_count_old self) / pf
             - of_int (py_int (expected_mclk_count_inc_float self)) \<and>
         error_accum self'' - error_accum self' =
           of_int (py_int c2 - py_int c) / pf2
             - of_int (py_int (expected_mclk_count_inc_float self)) \<and>
         mclk_count_old self'' = py_int c2"
proof -
  have s: "self' = ctrl_after self c pf"
    using assms(1,3) by (simp add: do_control_ctrl)
  have s2: "self'' = ctrl_after self' c2 pf2"
    using assms(2,4) by (simp add: do_control_ctrl)
  have 1: "mclk_count_old self' = py_int c"
    by (simp only: s ctrl_after_fields)
  have 2: "error_accum self' - error_accum self =
      of_int (py_int c - mclk_count_old self) / pf
        - of_int (py_int (expected_mclk_count_inc_float self))"
    unfolding s by (simp add: ctrl_after_fields raw_error_def)
  have e: "expected_mclk_count_inc_float self' = expected_mclk_count_inc_float self"
    by (simp only: s ctrl_after_fields)
  have 3: "error_accum self'' - error_accum self' =
      of_int (py_int c2 - py_int c) / pf2
        - of_int (py_int (expected_mclk_count_inc_float self))"
  proof -
    have "error_accum self'' - error_accum self' = raw_error self' c2 pf2"
      unfolding s2 by (simp add: ctrl_after_fields)
    then show ?thesis by (simp add: raw_error_def 1 e)
  qed
  have 4: "mclk_count_old self'' = py_int c2"
    by (simp only: s2 ctrl_after_fields)
  show ?thesis using 1 2 3 4 py_int_trunc [of c] by simp
qed

theorem measured_count_truncated_witness:
  "(1::real) \<noteq> 0 \<and>
   mclk_count_old (fst (fst (do_control get_output_freqency_from_error
      (sw_pll_ctrl_init 3 256 512 (1 / 10) 2 0 0 0 False, example_pll) (1311727 / 10) 1)))
     = 131172 \<and>
   py_int (1311727 / 10) = 131172 \<and> py_int (- 27 / 10) = - 2"
proof -
  have h: "(1::real) \<noteq> 0" by simp
  have p: "py_int (1311727 / 10) = 131172" "py_int (- 27 / 10) = - 2"
    by (simp_all add: py_int_def)
  show ?thesis
    using measured_count_truncated [OF h h refl refl,
        of get_output_freqency_from_error "sw_pll_ctrl_init 3 256 512 (1 / 10) 2 0 0 0 False"
          example_pll "1311727 / 10" get_output_freqency_from_error example_pll 0]
      p
    by simp
qed

subsection \<open>Ticks of a ready mapper\<close>

lemma mapper_truncates:
  "get_output_freqency_from_error self x = get_output_freqency_from_error self (of_int (py_int x))"
  by (simp add: get_output_freqency_from_error_def py_int_of_int)

lemma decoded_nonneg: "0 \<le> snd (reg_to_frac (uint (w::16 word)))"
  by (simp add: reg_to_frac_div_mod)

lemma mapper_ready_update:
  "mapper_ready (self\<lparr>f := a, p := b, output_frequency := c\<rparr>) = mapper_ready self"
  by (simp add: mapper_ready_def fixed_fields_valid_def vco_in_range_def vco_freq_def)

lemma reported_status_values: "reported_status n e \<in> {- 1, 0, 1}"
  by (simp add: reported_status_def)

lemma mapper_ready_tick:
  assumes "mapper_ready self"
  shows "\<exists>self' freq st. get_output_freqency_from_error self x = (self', Inr (Some freq, st)) \<and>
           mapper_ready self' \<and> st \<in> {- 1, 0, 1}"
proof -
  let ?n = "length (lut_reg self)"
  let ?w = "lut_reg self ! clamped_index ?n (py_int x)"
  let ?u = "self\<lparr>f := PyInt (fst (reg_to_frac (uint ?w))), p := PyInt (snd (reg_to_frac (uint ?w)))\<rparr>"
  have ne: "lut_reg self \<noteq> []" and fv: "fixed_fields_valid self"
    and all: "list_all lut_entry_valid (lut_reg self)"
    using assms by (simp_all add: mapper_ready_def)
  have "clamped_index ?n (py_int x) < ?n" using ne by (simp add: clamped_index_less)
  then have v: "lut_entry_valid ?w" using all by (simp add: list_all_length)
  have c: "config_checks ?u"
    using fv v
    by (simp add: config_checks_def preconditions_def fixed_fields_valid_def vco_in_range_def
        vco_freq_def lut_entry_valid_def)
  have "0 \<le> snd (reg_to_frac (uint ?w))" by (rule decoded_nonneg)
  then have pn: "val (p ?u) \<noteq> - 1" by simp
  have an: "val (ACD ?u) \<noteq> - 1" using fv by (simp add: fixed_fields_valid_def)
  have cf: "calc_frequency ?u = (?u\<lparr>output_frequency := Some (formula ?u)\<rparr>, Inr (formula ?u))"
    using c pn an by (rule calc_frequency_ok)
  have "get_output_freqency_from_error self x =
      (?u\<lparr>output_frequency := Some (formula ?u)\<rparr>,
       Inr (Some (formula ?u), reported_status ?n (py_int x)))"
    unfolding mapper_truncates [of self x] mapper_eq [OF ne] cf by simp
  moreover have "mapper_ready (?u\<lparr>output_frequency := Some (formula ?u)\<rparr>)"
    using assms by (simp add: mapper_ready_update)
  ultimately show ?thesis using reported_status_values by blast
qed

lemma do_control_ready:
  assumes "mapper_ready m" and "\<not> verbose s" and "pf \<noteq> 0"
  shows "\<exists>m' freq st. do_control get_output_freqency_from_error (s, m) c pf
             = ((ctrl_after s c pf, m'), Inr (Some freq, st)) \<and>
           mapper_ready m' \<and> st \<in> {- 1, 0, 1}"
proof -
  obtain m' freq st where
    "get_output_freqency_from_error m (error (ctrl_after s c pf)) = (m', Inr (Some freq, st))"
    "mapper_ready m'" "st \<in> {- 1, 0, 1}"
    using mapper_ready_tick [OF assms(1)] by blast
  then show ?thesis
    using assms(2,3) by (simp add: do_control_nonzero)
qed

lemma do_control_raises_iff:
  assumes "mapper_ready m" and "\<not> verbose s"
  shows "(\<exists>e. snd (do_control get_output_freqency_from_error (s, m) c pf) = Inl e) \<longleftrightarrow> pf = 0"
proof (cases "pf = 0")
  case True
  then show ?thesis by (simp add: do_control_zero)
next
  case False
  obtain m' freq st where "do_control get_output_freqency_from_error (s, m) c pf
             = ((ctrl_after s c pf, m'), Inr (Some freq, st))"
    using do_control_ready [OF assms False] by blast
  then show ?thesis using False by simp
qed

lemma run_ticks_ready:
  assumes "mapper_ready m" and "\<not> verbose s" and "list_all (\<lambda>t. snd t \<noteq> 0) ticks"
  shows "\<exists>s' m' rs. run_ticks get_output_freqency_from_error (s, m) ticks = ((s', m'), Inr rs) \<and>
           length rs = length ticks \<and> mapper_ready m' \<and> \<not> verbose s'"
  using assms
proof (induction ticks arbitrary: s m)
  case Nil
  then show ?case by simp
next
  case (Cons t ticks)
  obtain c pf where t: "t = (c, pf)" by (cases t)
  have pf: "pf \<noteq> 0" and rest: "list_all (\<lambda>t. snd t \<noteq> 0) ticks"
    using Cons.prems(3) t by simp_all
  obtain m' freq st where
    d: "do_control get_output_freqency_from_error (s, m) c pf
          = ((ctrl_after s c pf, m'), Inr (Some freq, st))"
    and r: "mapper_ready m'"
    using do_control_ready [OF Cons.prems(1,2) pf] by blast
  have q: "\<not> verbose (ctrl_after s c pf)"
    using Cons.prems(2) by (simp add: ctrl_after_fields)
  obtain s'' m'' rs where
    "run_ticks get_output_freqency_from_error (ctrl_after s c pf, m') ticks = ((s'', m''), Inr rs)"
    "length rs = length ticks" "mapper_ready m''" "\<not> verbose s''"
    using Cons.IH [OF r q rest] by blast
  then show ?case using t d by simp
qed

lemma init_ready:
  assumes "error_to_pll_output_frequency_init header inp F0 R0 OD0 ACD0 f0 p0 = Inr self"
  shows "fixed_fields_valid self"
proof -
  let ?a = "\<lparr>input_frequency = inp, F = F0, R = R0, OD = OD0, ACD = ACD0, f = f0, p = p0,
             output_frequency = None, lock_status_state = 0\<rparr>"
  obtain a where a: "app_pll_frac_calc_init inp F0 R0 OD0 ACD0 f0 p0 = Inr a"
    using assms by (auto simp add: error_to_pll_output_frequency_init_def split: sum.splits)
  have fields: "input_frequency self = input_frequency a" "F self = F a" "R self = R a"
    "OD self = OD a" "ACD self = ACD a"
    using assms a
    by (auto simp add: error_to_pll_output_frequency_init_def split: sum.splits prod.splits)
  obtain v where cf: "calc_frequency ?a = (a, Inr v)"
    using a by (auto simp add: app_pll_frac_calc_init_def split: prod.splits sum.splits)
  have c: "config_checks ?a"
    using cf calc_frequency_assert [of ?a] by (cases "config_checks ?a") auto
  have z: "\<not> (val (p ?a) = - 1 \<or> val (ACD ?a) = - 1)"
    using cf calc_frequency_zero_div [OF c] by auto
  have "a = ?a\<lparr>output_frequency := Some (formula ?a)\<rparr>"
    using cf calc_frequency_ok [OF c] z by simp
  then have "input_frequency a = inp" "F a = F0" "R a = R0" "OD a = OD0" "ACD a = ACD0"
    by simp_all
  then show ?thesis
    using c z fields
    by (simp add: fixed_fields_valid_def config_checks_def preconditions_def vco_in_range_def
        vco_freq_def)
qed

lemma example_ready: "mapper_ready example_pll"
  by (simp add: mapper_ready_def fixed_fields_valid_def vco_in_range_def vco_freq_def
      example_pll_def lut_entry_valid_def reg_to_frac_def)

text \<open>
  Claim C4. A runtime tick should never raise, whatever the error, when the configuration
  and the table are valid and the period fraction is not zero. The lemmas above show this
  for a controller constructed with \<^verbatim>\<open>verbose=False\<close>. A controller constructed with
  \<^verbatim>\<open>verbose=True\<close> raises \<^verbatim>\<open>AttributeError\<close> on every such tick: here on the example
  configuration, whose mapper is ready, with the nominal count and period fraction 1.
\<close>

theorem do_control_verbose_raises:
  "do_control get_output_freqency_from_error
     (sw_pll_ctrl_init 3 256 512 (1 / 10) 2 0 0 0 True, example_pll) 131072 1
   = ((ctrl_after (sw_pll_ctrl_init 3 256 512 (1 / 10) 2 0 0 0 True) 131072 1, example_pll),
      Inl AttributeError)"
  by (simp add: do_control_nonzero init_fields)

lemma steady_ticks_accum:
  assumes "mapper_ready m" and "\<not> verbose s"
  shows "error_accum (fst (fst (run_ticks get_output_freqency_from_error (s, m)
            (steady_ticks (mclk_count_old s) d n))))
         = error_accum s
            + of_nat n * (of_int d - of_int (py_int (expected_mclk_count_inc_float s)))"
  using assms
proof (induction n arbitrary: s m)
  case 0
  show ?case by simp
next
  case (Suc n)
  let ?c = "of_int (mclk_count_old s + d) :: real"
  let ?s = "ctrl_after s ?c 1"
  obtain m' freq st where
    d: "do_control get_output_freqency_from_error (s, m) ?c 1 = ((?s, m'), Inr (Some freq, st))"
    and r: "mapper_ready m'"
    using do_control_ready [OF Suc.prems, of 1 ?c] by auto
  have q: "\<not> verbose ?s" using Suc.prems(2) by (simp add: ctrl_after_fields)
  have t: "py_int ?c = mclk_count_old s + d" by (rule py_int_of_int)
  have o: "mclk_count_old ?s = mclk_count_old s + d"
    by (simp only: ctrl_after_fields t)
  have e: "expected_mclk_count_inc_float ?s = expected_mclk_count_inc_float s"
    by (simp only: ctrl_after_fields)
  have "raw_error s ?c 1 = of_int d - of_int (py_int (expected_mclk_count_inc_float s))"
    unfolding raw_error_def t by simp
  then have a: "error_accum ?s = error_accum s
             + (of_int d - of_int (py_int (expected_mclk_count_inc_float s)))"
    by (simp only: ctrl_after_fields)
  have step: "fst (run_ticks get_output_freqency_from_error (s, m)
              (steady_ticks (mclk_count_old s) d (Suc n)))
        = fst (run_ticks get_output_freqency_from_error (?s, m')
              (steady_ticks (mclk_count_old ?s) d n))"
    unfolding o using d by (simp split: prod.splits sum.splits)
  have "error_accum (fst (fst (run_ticks get_output_freqency_from_error (?s, m')
              (steady_ticks (mclk_count_old ?s) d n))))
        = error_accum ?s
            + of_nat n * (of_int d - of_int (py_int (expected_mclk_count_inc_float ?s)))"
    by (rule Suc.IH [OF r q])
  then show ?case
    unfolding step e a by (simp add: algebra_simps)
qed

text \<open>
  Claim C10. When \<open>Ki = 0\<close> the windup limit is 0 and the integral term of every tick is
  exactly 0, and likewise the double integral term when \<open>Kii = 0\<close>; with both gains 0
  the total error is the proportional term alone. The accumulators are not frozen and not
  clamped: whatever the gains are, a tick adds the raw error to \<^verbatim>\<open>error_accum\<close> and then
  the new \<^verbatim>\<open>error_accum\<close> to \<^verbatim>\<open>error_accum_accum\<close>. The growth has no bound: after \<open>n\<close>
  ticks whose count advances by \<open>d\<close> each, \<^verbatim>\<open>error_accum\<close> is \<open>n\<close> times the raw error
  \<open>d - int(expected_increment)\<close>.
\<close>

theorem zero_gain_terms:
  assumes "sm = fst (run_ticks lk (sw_pll_ctrl_init lut_size mu ra kp ki kii c0 r0 vb, m) ticks)"
    and "pf \<noteq> 0"
    and "self' = fst (fst (do_control lk sm c pf))"
  shows "(ki = 0 \<longrightarrow> i_windup_limit self' = 0 \<and> error_i self' = 0) \<and>
         (kii = 0 \<longrightarrow> ii_windup_limit self' = 0 \<and> error_ii self' = 0) \<and>
         (ki = 0 \<and> kii = 0 \<longrightarrow> error self' = kp * raw_error (fst sm) c pf) \<and>
         error_accum self' = error_accum (fst sm) + raw_error (fst sm) c pf \<and>
         error_accum_accum self' = error_accum_accum (fst sm) + error_accum self' \<and>
         (mapper_ready m0 \<and> \<not> vb \<longrightarrow>
            error_accum (fst (fst (run_ticks get_output_freqency_from_error
               (sw_pll_ctrl_init lut_size mu ra kp ki kii c0 r0 vb, m0) (steady_ticks c0 d n))))
              = of_nat n * (of_int d - of_int (py_int (mu * of_int ra))))"
proof -
  note r = reachable_fields [OF assms(1)]
  have s: "self' = ctrl_after (fst sm) c pf"
    using assms(2,3) by (simp add: do_control_ctrl)
  have k: "Ki self' = ki" "Kii self' = kii"
    "i_windup_limit self' = (if ki \<noteq> 0 then of_int lut_size / ki else 0)"
    "ii_windup_limit self' = (if kii \<noteq> 0 then of_int lut_size / kii else 0)"
    by (simp_all only: s ctrl_after_fields r)
  have i: "ki = 0 \<longrightarrow> i_windup_limit self' = 0 \<and> error_i self' = 0"
    using k by (simp add: error_i_zero)
  have ii: "kii = 0 \<longrightarrow> ii_windup_limit self' = 0 \<and> error_ii self' = 0"
    using k by (simp add: error_ii_zero)
  have e: "error self' = kp * raw_error (fst sm) c pf + error_i self' + error_ii self'"
    unfolding s using ctrl_after_error [of "fst sm" c pf] by (simp only: r)
  have a: "error_accum self' = error_accum (fst sm) + raw_error (fst sm) c pf"
    by (simp only: s ctrl_after_fields)
  have aa: "error_accum_accum self' = error_accum_accum (fst sm) + error_accum self'"
    by (simp only: s ctrl_after_fields)
  have g: "mapper_ready m0 \<and> \<not> vb \<longrightarrow>
            error_accum (fst (fst (run_ticks get_output_freqency_from_error
               (sw_pll_ctrl_init lut_size mu ra kp ki kii c0 r0 vb, m0) (steady_ticks c0 d n))))
              = of_nat n * (of_int d - of_int (py_int (mu * of_int ra)))"
    using steady_ticks_accum [of m0 "sw_pll_ctrl_init lut_size mu ra kp ki kii c0 r0 vb" d n]
    by (simp add: init_fields)
  show ?thesis using i ii e a aa g by simp
qed

theorem zero_gain_terms_witness:
  "(1::real) \<noteq> 0 \<and> (0::real) = 0 \<and> mapper_ready example_pll \<and>
   error_accum (fst (fst (run_ticks get_output_freqency_from_error
      (sw_pll_ctrl_init 3 256 512 (1 / 10) 0 0 0 0 False, example_pll)
      (steady_ticks 0 131172 1000)))) = 100000 \<and>
   error_i (fst (fst (do_control get_output_freqency_from_error
      (sw_pll_ctrl_init 3 256 512 (1 / 10) 0 0 0 0 False, example_pll) 131172 1))) = 0 \<and>
   error_accum (fst (fst (do_control get_output_freqency_from_error
      (sw_pll_ctrl_init 3 256 512 (1 / 10) 0 0 0 0 False, example_pll) 131172 1))) = 100 \<and>
   error (fst (fst (do_control get_output_freqency_from_error
      (sw_pll_ctrl_init 3 256 512 (1 / 10) 0 0 0 0 False, example_pll) 131172 1))) = 10"
proof -
  have h: "(1::real) \<noteq> 0" by simp
  have r: "(sw_pll_ctrl_init 3 256 512 (1 / 10) 0 0 0 0 False, example_pll)
             = fst (run_ticks get_output_freqency_from_error
                 (sw_pll_ctrl_init 3 256 512 (1 / 10) 0 0 0 0 False, example_pll) [])"
    by simp
  show ?thesis
    using zero_gain_terms [OF r h refl, of 131172 example_pll 131172 1000] example_ready
    by (simp add: init_fields raw_error_def py_int_def)
qed

subsection \<open>Building the register table\<close>












end
